theory Spec2Isabelle
  imports Complex_Main
begin

section \<open>StudyMate: the session state of \<^verbatim>\<open>src/App.tsx\<close> and its event handlers\<close>

text \<open>
  The component \<^verbatim>\<open>App\<close> holds ten state cells and reacts to user actions, to events
  of the speech recogniser, to snapshots of the document store and to the reply of the
  generative service. Each handler is embedded as a function from the state before the
  event to the state after it, together with the list of calls it makes on its external
  collaborators. What a collaborator answers (the reply of the generative service, the
  value \<^verbatim>\<open>JSON.parse\<close> returns, the clock, the acknowledgement of a store write) is an
  argument of the handler. Console output is not modelled.
\<close>

subsection \<open>Strings\<close>

text \<open>
  A JavaScript string is a sequence of UTF-16 code units; a code unit is modelled by its
  number. \<open>lit\<close> turns an ASCII literal of the source into such a sequence.
\<close>

type_synonym jsstring = "nat list"

definition lit :: "string \<Rightarrow> jsstring" where
  "lit s = map of_char s"

text \<open>
  \<^verbatim>\<open>String.prototype.trim\<close> strips the code units that ECMAScript calls WhiteSpace or
  LineTerminator from both ends: TAB, LF, VT, FF, CR, SP, NBSP, U+1680, U+2000..U+200A,
  U+2028, U+2029, U+202F, U+205F, U+3000 and U+FEFF.
\<close>

definition is_ws :: "nat \<Rightarrow> bool" where
  "is_ws u = (u \<in> {9, 10, 11, 12, 13, 32, 160, 5760, 8232, 8233, 8239, 8287, 12288, 65279}
              \<or> (8192 \<le> u \<and> u \<le> 8202))"

definition trim :: "jsstring \<Rightarrow> jsstring" where
  "trim t = rev (dropWhile is_ws (rev (dropWhile is_ws t)))"

text \<open>The decimal rendering of an integer, as a template literal prints \<^verbatim>\<open>Date.now()\<close>.\<close>

fun digits :: "nat \<Rightarrow> jsstring" where
  "digits n = (if n < 10 then [48 + n] else digits (n div 10) @ [48 + n mod 10])"

declare digits.simps [simp del]

definition show_int :: "int \<Rightarrow> jsstring" where
  "show_int i = (if i < 0 then 45 # digits (nat (- i)) else digits (nat i))"

text \<open>
  A value that is a string or \<^verbatim>\<open>null\<close> is falsy when it is \<^verbatim>\<open>null\<close> or the empty
  string.
\<close>

definition falsy :: "jsstring option \<Rightarrow> bool" where
  "falsy v = (case v of None \<Rightarrow> True | Some t \<Rightarrow> t = [])"

subsection \<open>JavaScript values\<close>

text \<open>
  \<^verbatim>\<open>JSON.parse\<close> returns \<^verbatim>\<open>null\<close>, a boolean, a number, a string, an array or an object,
  and reading a property that is not there yields \<^verbatim>\<open>undefined\<close>. A number is a double;
  the finite ones are rationals, and the code never looks into a number, so the infinities
  that an overlong literal parses to are left out. An object is the list of its own
  properties in insertion order; its keys are distinct.
\<close>

datatype js =
    JUndefined
  | JNull
  | JBool bool
  | JNum rat
  | JStr jsstring
  | JArr "js list"
  | JObj "(jsstring \<times> js) list"

text \<open>
  \<open>get_prop k v\<close> is \<^verbatim>\<open>v.k\<close> for a value \<open>v\<close> other than \<^verbatim>\<open>null\<close> and \<^verbatim>\<open>undefined\<close>
  and a property name \<open>k\<close> that no built-in prototype defines (the code reads
  \<^verbatim>\<open>summary\<close> and \<^verbatim>\<open>flashcards\<close>): an own property of an object, \<^verbatim>\<open>undefined\<close> on
  anything else. On \<^verbatim>\<open>null\<close> and \<^verbatim>\<open>undefined\<close> the read throws; the caller decides
  that case before it calls \<open>get_prop\<close>.
\<close>

fun get_prop :: "jsstring \<Rightarrow> js \<Rightarrow> js" where
  "get_prop k (JObj ps) = (case map_of ps k of None \<Rightarrow> JUndefined | Some v \<Rightarrow> v)"
| "get_prop k v = JUndefined"

text \<open>
  A thrown value, seen through the only thing the code reads of it: \<^verbatim>\<open>err.message\<close>,
  \<open>None\<close> when the thrown value has no message.
\<close>

datatype js_error = JsError "jsstring option"

text \<open>
  Reading a property of \<^verbatim>\<open>null\<close> or \<^verbatim>\<open>undefined\<close> throws a TypeError. The wording of
  its message belongs to the JavaScript engine; this is V8's for the property
  \<^verbatim>\<open>summary\<close>.
\<close>

definition nullish :: "js \<Rightarrow> bool" where
  "nullish v = (v = JNull \<or> v = JUndefined)"

definition property_error_message :: "js \<Rightarrow> jsstring" where
  "property_error_message v =
     lit ''Cannot read properties of '' @
     (if v = JNull then lit ''null'' else lit ''undefined'') @
     lit '' (reading '' @ [39] @ lit ''summary'' @ [39] @ lit '')''"

subsection \<open>The data model\<close>

text \<open>
  The \<^verbatim>\<open>timestamp\<close> field of a lecture is an object with a \<^verbatim>\<open>toDate\<close> method, the
  sentinel of a pending server timestamp, or \<^verbatim>\<open>null\<close>:
  \<^item> \<open>ClockNow\<close> is \<^verbatim>\<open>{ toDate: () => new Date() }\<close> (line 271);
  \<^item> \<open>ClockAgo n\<close> is \<^verbatim>\<open>{ toDate: () => new Date(Date.now() - n) }\<close> (line 51);
  \<^item> \<open>ServerTimestamp\<close> is \<^verbatim>\<open>FieldValue.serverTimestamp()\<close> (line 280), the placeholder
    sent in a write;
  \<^item> \<open>StoreTimestamp d\<close> is a timestamp read from a snapshot, resolved to the date \<open>d\<close>;
  \<^item> \<open>TimestampNull\<close> is the field of a snapshot whose server time is still pending.
  Dates are milliseconds since the epoch.
\<close>

datatype timestamp =
    ClockNow
  | ClockAgo int
  | ServerTimestamp
  | StoreTimestamp int
  | TimestampNull

text \<open>
  \<^verbatim>\<open>lecture.timestamp?.toDate()\<close> (line 400) when the clock reads \<open>now\<close>; \<open>None\<close> when
  there is no date to read.
\<close>

fun toDate :: "timestamp \<Rightarrow> int \<Rightarrow> int option" where
  "toDate ClockNow now = Some now"
| "toDate (ClockAgo n) now = Some (now - n)"
| "toDate (StoreTimestamp d) now = Some d"
| "toDate ServerTimestamp now = None"
| "toDate TimestampNull now = None"

text \<open>
  \<^verbatim>\<open>lectureData\<close> (lines 260-265), \<^verbatim>\<open>Omit<Lecture, 'id'>\<close> (line 278) and \<^verbatim>\<open>Lecture\<close>
  (lines 30-37). The interface types \<^verbatim>\<open>summary\<close> as a string and \<^verbatim>\<open>flashcards\<close> as an
  array of \<^verbatim>\<open>Flashcard\<close>, but both are filled from the untyped result of \<^verbatim>\<open>JSON.parse\<close>,
  so at run time they hold any value.
\<close>

record lectureData =
  title :: jsstring
  summary :: js
  flashcards :: js
  originalText :: jsstring

record newLecture = lectureData +
  timestamp :: timestamp

record lecture = newLecture +
  lecture_id :: jsstring

datatype Tab = TabInput | TabNotes | TabFlashcards | TabHistory

text \<open>The state cells of \<^verbatim>\<open>App\<close> (lines 85-94) with their initial values.\<close>

record state =
  lectureText :: jsstring
  isRecording :: bool
  interimTranscript :: jsstring
  isLoading :: bool
  error :: "jsstring option"
  activeTab :: Tab
  lectures :: "lecture list"
  selectedLecture :: "lecture option"
  userId :: "jsstring option"
  mockMode :: bool

definition initial_state :: state where
  "initial_state =
     \<lparr>lectureText = [], isRecording = False, interimTranscript = [], isLoading = False,
      error = None, activeTab = TabInput, lectures = [], selectedLecture = None,
      userId = None, mockMode = False\<rparr>"

text \<open>The sample record of the fallback mode (lines 42-54).\<close>

definition flashcard :: "string \<Rightarrow> string \<Rightarrow> js" where
  "flashcard t d = JObj [(lit ''term'', JStr (lit t)), (lit ''definition'', JStr (lit d))]"

definition MOCK_LECTURES :: "lecture list" where
  "MOCK_LECTURES =
    [\<lparr>title = lit ''Introduction to AI (Sample)'',
      summary = JStr (lit ''This is a sample summary about Artificial Intelligence. It explains the core concepts, including machine learning, deep learning, and natural language processing. The goal is to provide a foundational understanding of the field.''),
      flashcards = JArr
        [flashcard ''Machine Learning'' ''A field of study in artificial intelligence concerned with the development and study of statistical algorithms that can learn from data and generalize to unseen data.'',
         flashcard ''Neural Network'' ''A series of algorithms that endeavors to recognize underlying relationships in a set of data through a process that mimics the way the human brain operates.''],
      originalText = lit ''This is the original text for the sample lecture on AI.'',
      timestamp = ClockAgo (1000 * 60 * 5),
      lecture_id = lit ''mock-1''\<rparr>]"

subsection \<open>The collaborators\<close>

text \<open>
  The globals of \<^verbatim>\<open>index.html\<close> that the code reads (lines 7-16): whether
  \<^verbatim>\<open>window.firebase\<close> is there, \<^verbatim>\<open>window.__firebase_config\<close> (absent, or present with
  or without an \<^verbatim>\<open>apiKey\<close>), \<^verbatim>\<open>window.__app_id\<close>, and whether the browser has a speech
  recogniser.
\<close>

record window =
  firebase :: bool
  firebase_config :: "jsstring option option"
  app_id :: "jsstring option"
  speechRecognition :: bool

text \<open>The calls made on the collaborators.\<close>

datatype schema =
    SString
  | SArray schema
  | SObject "(jsstring \<times> schema) list" "jsstring list"

datatype effect =
    GenerateContent jsstring jsstring jsstring schema
  | CollectionAdd jsstring newLecture
  | Subscribe jsstring
  | RecognitionStart
  | RecognitionStop

text \<open>
  What lines 228 and 256-258 can yield:
  \<^item> \<open>ClientThrows m\<close>: \<^verbatim>\<open>new GoogleGenAI\<close> throws before any request is made;
  \<^item> \<open>Rejected m\<close>: the awaited \<^verbatim>\<open>generateContent\<close> rejects, or \<^verbatim>\<open>response.text.trim()\<close>
    throws;
  \<^item> \<open>Unparsable m\<close>: \<^verbatim>\<open>JSON.parse\<close> throws a SyntaxError with message \<open>m\<close>;
  \<^item> \<open>Payload v\<close>: \<^verbatim>\<open>JSON.parse\<close> returns \<open>v\<close>.
\<close>

datatype gen_reply =
    ClientThrows "jsstring option"
  | Rejected "jsstring option"
  | Unparsable jsstring
  | Payload js

text \<open>What the awaited \<^verbatim>\<open>add\<close> of line 284 can yield.\<close>

datatype add_reply = AddOk | AddRejected "jsstring option"


text \<open>
  What the \<^verbatim>\<open>try\<close> block of \<^verbatim>\<open>setupFirebase\<close> (lines 119-154) can yield: an exception
  before a user is known, no current user, a user with the subscription opened, or a user
  with the subscription call throwing.
\<close>

datatype setup_reply =
    SetupThrows
  | NoCurrentUser
  | Subscribed jsstring
  | SubscribeThrows jsstring

subsection \<open>Start-up: \<^verbatim>\<open>setupMockMode\<close> and \<^verbatim>\<open>setupFirebase\<close>\<close>

text \<open>Lines 103-109.\<close>

definition setupMockMode :: "state \<Rightarrow> state" where
  "setupMockMode s =
     s\<lparr>mockMode := True,
       userId := Some (lit ''MOCK_USER_ID''),
       lectures := MOCK_LECTURES,
       selectedLecture := (if length MOCK_LECTURES > 0 then Some (MOCK_LECTURES ! 0) else None)\<rparr>"

text \<open>\<^verbatim>\<open>window.__app_id || 'MOCK_APP_ID'\<close> (lines 100 and 282).\<close>

definition appId :: "window \<Rightarrow> jsstring" where
  "appId w =
     (case app_id w of
        None \<Rightarrow> lit ''MOCK_APP_ID''
      | Some a \<Rightarrow> if a = [] then lit ''MOCK_APP_ID'' else a)"

text \<open>
  A string or \<^verbatim>\<open>null\<close> inside a template literal; \<^verbatim>\<open>null\<close> prints as the word.
\<close>

definition template :: "jsstring option \<Rightarrow> jsstring" where
  "template v = (case v of None \<Rightarrow> lit ''null'' | Some t \<Rightarrow> t)"

text \<open>The collection path of lines 137 and 283.\<close>

definition collectionPath :: "window \<Rightarrow> jsstring \<Rightarrow> jsstring" where
  "collectionPath w uid =
     lit ''/artifacts/'' @ appId w @ lit ''/users/'' @ uid @ lit ''/lectures''"

text \<open>
  The guard of line 114:
  \<^verbatim>\<open>!window.firebase || !window.__firebase_config || !window.__firebase_config.apiKey\<close>.
\<close>

definition config_missing :: "window \<Rightarrow> bool" where
  "config_missing w =
     (\<not> firebase w \<or>
      (case firebase_config w of None \<Rightarrow> True | Some apiKey \<Rightarrow> falsy apiKey))"

text \<open>
  Lines 111-159. Every exception of the \<^verbatim>\<open>try\<close> block ends in \<^verbatim>\<open>setupMockMode\<close>, which
  overwrites the two cells the block may have set before it threw.
\<close>

definition setupFirebase :: "window \<Rightarrow> setup_reply \<Rightarrow> state \<Rightarrow> state \<times> effect list" where
  "setupFirebase w reply s =
     (if config_missing w then (setupMockMode s, [])
      else case reply of
          SetupThrows \<Rightarrow> (setupMockMode s, [])
        | NoCurrentUser \<Rightarrow> (setupMockMode s, [])
        | Subscribed uid \<Rightarrow>
            (s\<lparr>userId := Some uid, mockMode := False\<rparr>, [Subscribe (collectionPath w uid)])
        | SubscribeThrows uid \<Rightarrow>
            (setupMockMode (s\<lparr>userId := Some uid, mockMode := False\<rparr>), []))"

subsection \<open>The store subscription (lines 140-153)\<close>

text \<open>
  A document of a snapshot: its id and its data. The documents of the collection are the
  ones line 284 writes, so their data has the fields of \<^verbatim>\<open>Omit<Lecture, 'id'>\<close> and the
  spread of line 141 leaves \<^verbatim>\<open>id: doc.id\<close> in place.
\<close>

record doc =
  doc_id :: jsstring
  doc_data :: newLecture

definition lecture_of_doc :: "doc \<Rightarrow> lecture" where
  "lecture_of_doc d =
     \<lparr>title = title (doc_data d), summary = summary (doc_data d),
      flashcards = flashcards (doc_data d), originalText = originalText (doc_data d),
      timestamp = timestamp (doc_data d), lecture_id = doc_id d\<rparr>"

text \<open>The updater passed to \<^verbatim>\<open>setSelectedLecture\<close> (lines 144-149).\<close>

definition reconcile :: "lecture list \<Rightarrow> lecture option \<Rightarrow> lecture option" where
  "reconcile lecturesData currentSelected =
     (case currentSelected of
        Some cur \<Rightarrow>
          if list_ex (\<lambda>l. lecture_id l = lecture_id cur) lecturesData then Some cur
          else if length lecturesData > 0 then Some (lecturesData ! 0) else None
      | None \<Rightarrow> if length lecturesData > 0 then Some (lecturesData ! 0) else None)"

definition onSnapshot :: "doc list \<Rightarrow> state \<Rightarrow> state" where
  "onSnapshot docs s =
     (let lecturesData = map lecture_of_doc docs
      in s\<lparr>lectures := lecturesData,
           selectedLecture := reconcile lecturesData (selectedLecture s)\<rparr>)"

text \<open>The error callback of the subscription (lines 150-153).\<close>

definition onSnapshotError :: "state \<Rightarrow> state" where
  "onSnapshotError s = setupMockMode s"

subsection \<open>Speech capture (lines 169-214)\<close>






subsection \<open>Generation (lines 216-301)\<close>

definition model :: jsstring where
  "model = lit ''gemini-2.5-flash''"

definition systemInstruction :: jsstring where
  "systemInstruction = lit ''You are an expert academic assistant. Your task is to process the provided lecture text and generate a concise summary and a set of flashcards with key terms and their definitions. Ensure the output is structured according to the provided JSON schema.''"

definition responseSchema :: schema where
  "responseSchema =
     SObject
       [(lit ''summary'', SString),
        (lit ''flashcards'',
           SArray (SObject [(lit ''term'', SString), (lit ''definition'', SString)]
                           [lit ''term'', lit ''definition'']))]
       [lit ''summary'', lit ''flashcards'']"

text \<open>Line 261: \<^verbatim>\<open>substring(0, 40)\<close> keeps the first forty code units.\<close>

definition make_lectureData :: "jsstring \<Rightarrow> js \<Rightarrow> lectureData" where
  "make_lectureData text result =
     \<lparr>title = take 40 text @ lit ''...'',
      summary = get_prop (lit ''summary'') result,
      flashcards = get_prop (lit ''flashcards'') result,
      originalText = text\<rparr>"

text \<open>The record of the fallback branch (lines 268-272) and of the remote one (278-281).\<close>

definition mock_newLecture :: "int \<Rightarrow> lectureData \<Rightarrow> lecture" where
  "mock_newLecture now d =
     \<lparr>title = title d, summary = summary d, flashcards = flashcards d,
      originalText = originalText d, timestamp = ClockNow,
      lecture_id = lit ''mock-'' @ show_int now\<rparr>"

definition remote_newLecture :: "lectureData \<Rightarrow> newLecture" where
  "remote_newLecture d =
     \<lparr>title = title d, summary = summary d, flashcards = flashcards d,
      originalText = originalText d, timestamp = ServerTimestamp\<rparr>"

text \<open>
  The \<^verbatim>\<open>try\<close> block (lines 225-286), from the state the handler has set up: the calls it
  makes, and either the exception it throws or the state it leaves. No state cell is set
  before a point that can throw, so an exception leaves the state as it found it.
  \<open>now\<close> is \<^verbatim>\<open>Date.now()\<close> at line 269.
\<close>

definition handleGenerate_try ::
  "window \<Rightarrow> gen_reply \<Rightarrow> int \<Rightarrow> add_reply \<Rightarrow> state \<Rightarrow> effect list \<times> (js_error + state)" where
  "handleGenerate_try w reply now added s =
     (let request = GenerateContent model systemInstruction (lectureText s) responseSchema
      in case reply of
          ClientThrows m \<Rightarrow> ([], Inl (JsError m))
        | Rejected m \<Rightarrow> ([request], Inl (JsError m))
        | Unparsable m \<Rightarrow> ([request], Inl (JsError (Some m)))
        | Payload result \<Rightarrow>
            if nullish result then
              ([request], Inl (JsError (Some (property_error_message result))))
            else
              let lectureData = make_lectureData (lectureText s) result
              in if mockMode s then
                   let newLecture = mock_newLecture now lectureData
                   in ([request],
                       Inr (s\<lparr>lectures := newLecture # lectures s,
                              selectedLecture := Some newLecture\<rparr>))
                 else
                   let newLecture = remote_newLecture lectureData;
                       write = CollectionAdd (collectionPath w (template (userId s))) newLecture
                   in case added of
                        AddOk \<Rightarrow> ([request, write], Inr s)
                      | AddRejected m \<Rightarrow> ([request, write], Inl (JsError m)))"

text \<open>The \<^verbatim>\<open>catch\<close> block (lines 287-290); \<^verbatim>\<open>err.message || 'Unknown error'\<close>.\<close>

definition error_text :: "js_error \<Rightarrow> jsstring" where
  "error_text err =
     (case err of JsError m \<Rightarrow>
        lit ''An error occurred during generation: '' @
        (case m of
           None \<Rightarrow> lit ''Unknown error''
         | Some t \<Rightarrow> if t = [] then lit ''Unknown error'' else t))"

definition handleGenerate_catch :: "js_error \<Rightarrow> state \<Rightarrow> state" where
  "handleGenerate_catch err s = s\<lparr>error := Some (error_text err), activeTab := TabInput\<rparr>"

text \<open>The guard of line 217 and the three assignments of lines 221-223.\<close>

definition handleGenerate_guard :: "state \<Rightarrow> bool" where
  "handleGenerate_guard s = (trim (lectureText s) = [] \<or> falsy (userId s))"

definition handleGenerate_start :: "state \<Rightarrow> state" where
  "handleGenerate_start s = s\<lparr>isLoading := True, error := None, activeTab := TabNotes\<rparr>"

text \<open>
  \<^verbatim>\<open>handleGenerate\<close> (lines 216-294), run to its end with no other event in between.
\<close>

definition handleGenerate ::
  "window \<Rightarrow> gen_reply \<Rightarrow> int \<Rightarrow> add_reply \<Rightarrow> state \<Rightarrow> state \<times> effect list" where
  "handleGenerate w reply now added s =
     (if handleGenerate_guard s then
        (s\<lparr>error := Some (lit ''Lecture text is required.'')\<rparr>, [])
      else
        let s1 = handleGenerate_start s;
            (effects, r) = handleGenerate_try w reply now added s1;
            s2 = (case r of Inl err \<Rightarrow> handleGenerate_catch err s1 | Inr s' \<Rightarrow> s')
        in (s2\<lparr>isLoading := False\<rparr>, effects))"

text \<open>Line 301, and the remaining handlers (lines 296-299, 318 and 339).\<close>

definition isGenerateDisabled :: "state \<Rightarrow> bool" where
  "isGenerateDisabled s = (trim (lectureText s) = [] \<or> isLoading s)"

definition handleSelectLecture :: "lecture \<Rightarrow> state \<Rightarrow> state" where
  "handleSelectLecture l s = s\<lparr>selectedLecture := Some l, activeTab := TabNotes\<rparr>"

definition onTabClick :: "Tab \<Rightarrow> state \<Rightarrow> state" where
  "onTabClick tab s = s\<lparr>activeTab := tab\<rparr>"

definition onChange :: "jsstring \<Rightarrow> state \<Rightarrow> state" where
  "onChange v s = s\<lparr>lectureText := v\<rparr>"

subsection \<open>The conditions the specification puts on payloads and records\<close>

text \<open>
  These predicates are not code. \<open>required_shape\<close> is the shape the specification requires
  of a payload: \<^verbatim>\<open>summary\<close> is a string and \<^verbatim>\<open>flashcards\<close> is an array of objects whose
  \<^verbatim>\<open>term\<close> and \<^verbatim>\<open>definition\<close> are strings. \<open>flashcards_ok\<close> is its invariant of records:
  the flashcards are a list, possibly empty, and every entry has a non-empty term.
\<close>

definition is_string :: "js \<Rightarrow> bool" where
  "is_string v = (case v of JStr t \<Rightarrow> True | _ \<Rightarrow> False)"

definition flashcard_shape :: "js \<Rightarrow> bool" where
  "flashcard_shape c =
     (case c of
        JObj ps \<Rightarrow>
          is_string (get_prop (lit ''term'') c) \<and> is_string (get_prop (lit ''definition'') c)
      | _ \<Rightarrow> False)"

definition required_shape :: "js \<Rightarrow> bool" where
  "required_shape v =
     (is_string (get_prop (lit ''summary'') v) \<and>
      (case get_prop (lit ''flashcards'') v of
         JArr cards \<Rightarrow> list_all flashcard_shape cards
       | _ \<Rightarrow> False))"

definition nonempty_term :: "js \<Rightarrow> bool" where
  "nonempty_term c = (case get_prop (lit ''term'') c of JStr t \<Rightarrow> t \<noteq> [] | _ \<Rightarrow> False)"

definition flashcards_ok :: "js \<Rightarrow> bool" where
  "flashcards_ok v = (case v of JArr cards \<Rightarrow> list_all nonempty_term cards | _ \<Rightarrow> False)"

definition record_ok :: "'a lectureData_scheme \<Rightarrow> bool" where
  "record_ok l = flashcards_ok (flashcards l)"

subsection \<open>Sample inputs\<close>

text \<open>
  A page without store configuration, a page with one, three documents of a collection,
  and four session states: one whose transcript is only white space, one ready to
  generate in fallback mode, one ready to generate against the remote store, and one whose
  user is not resolved yet.
\<close>

definition bare_window :: window where
  "bare_window = \<lparr>firebase = True, firebase_config = None, app_id = None, speechRecognition = True\<rparr>"

definition remote_window :: window where
  "remote_window =
     \<lparr>firebase = True, firebase_config = Some (Some (lit ''key'')), app_id = Some (lit ''app''),
      speechRecognition = True\<rparr>"

definition doc_a :: doc where
  "doc_a =
     \<lparr>doc_id = lit ''a'',
      doc_data = \<lparr>title = lit ''A...'', summary = JStr (lit ''sa''), flashcards = JArr [],
                  originalText = lit ''A'', timestamp = StoreTimestamp 20\<rparr>\<rparr>"

definition doc_b :: doc where
  "doc_b =
     \<lparr>doc_id = lit ''b'',
      doc_data = \<lparr>title = lit ''B...'', summary = JStr (lit ''sb''), flashcards = JArr [],
                  originalText = lit ''B'', timestamp = StoreTimestamp 10\<rparr>\<rparr>"

definition doc_c :: doc where
  "doc_c =
     \<lparr>doc_id = lit ''c'',
      doc_data = \<lparr>title = lit ''C...'', summary = JStr (lit ''sc''), flashcards = JArr [],
                  originalText = lit ''C'', timestamp = TimestampNull\<rparr>\<rparr>"

definition blank_state :: state where
  "blank_state = (setupMockMode initial_state)\<lparr>lectureText := [32, 9, 10, 160, 8195]\<rparr>"

definition ready_state :: state where
  "ready_state =
     (setupMockMode initial_state)\<lparr>lectureText := lit ''Neurons transmit signals via synapses.''\<rparr>"

definition remote_state :: state where
  "remote_state =
     initial_state\<lparr>userId := Some (lit ''u1''),
                   lectureText := lit ''Neurons transmit signals via synapses.''\<rparr>"

definition unresolved_state :: state where
  "unresolved_state =
     initial_state\<lparr>lectureText := lit ''Neurons transmit signals via synapses.''\<rparr>"

text \<open>
  Three payloads: \<^verbatim>\<open>{"summary": 5, "flashcards": "none"}\<close>, one of the required shape
  whose only flashcard has the empty term, and one with two proper flashcards. And two
  more states: one in the middle of a capture, with text and an interim preview, and one
  with text typed by hand and no capture running.
\<close>

definition bad_payload :: js where
  "bad_payload = JObj [(lit ''summary'', JNum 5), (lit ''flashcards'', JStr (lit ''none''))]"

definition empty_term_payload :: js where
  "empty_term_payload =
     JObj [(lit ''summary'', JStr (lit ''S'')),
           (lit ''flashcards'', JArr [flashcard [] ''D''])]"

definition neuron_payload :: js where
  "neuron_payload =
     JObj [(lit ''summary'', JStr (lit ''S'')),
           (lit ''flashcards'',
              JArr [flashcard ''Neuron'' ''A nerve cell.'', flashcard ''Synapse'' ''A junction.''])]"



section \<open>Properties\<close>

subsection \<open>Selection across snapshots\<close>

lemma lecture_id_of_doc: "lecture_id (lecture_of_doc d) = doc_id d"
  by (simp add: lecture_of_doc_def)

lemma reconcile_rule:
  "reconcile ls cur =
     (if \<exists>c. cur = Some c \<and> lecture_id c \<in> lecture_id ` set ls then cur
      else case ls of [] \<Rightarrow> None | l # rest \<Rightarrow> Some l)"
proof (cases cur)
  case None
  then show ?thesis by (cases ls) (simp_all add: reconcile_def)
next
  case (Some c)
  have "list_ex (\<lambda>l. lecture_id l = lecture_id c) ls \<longleftrightarrow> lecture_id c \<in> lecture_id ` set ls"
    unfolding list_ex_iff image_iff by (metis (full_types))
  with Some show ?thesis by (cases ls) (simp_all add: reconcile_def)
qed

text \<open>
  Claim C1. When the store delivers a snapshot, the list becomes the snapshot and the
  selection follows one rule: if a record was selected and its id occurs among the ids of
  the snapshot, wherever it stands there, the selection stays as it was; otherwise the
  selection is the first record of the snapshot, or none when the snapshot is empty.
\<close>

theorem onSnapshot_selection:
  "lectures (onSnapshot docs s) = map lecture_of_doc docs \<and>
   selectedLecture (onSnapshot docs s) =
     (if \<exists>cur. selectedLecture s = Some cur \<and> lecture_id cur \<in> doc_id ` set docs
      then selectedLecture s
      else case docs of [] \<Rightarrow> None | d # ds \<Rightarrow> Some (lecture_of_doc d))"
proof -
  have ids: "lecture_id ` set (map lecture_of_doc docs) = doc_id ` set docs"
    by (simp add: image_image lecture_id_of_doc)
  show ?thesis
    unfolding onSnapshot_def Let_def reconcile_rule ids
    by (cases docs) auto
qed

text \<open>
  The record \<open>b\<close> is selected by a first snapshot, moves from the first to the last place
  in a second one and stays selected; a snapshot without \<open>b\<close> selects its first record,
  and an empty one selects none.
\<close>

theorem onSnapshot_selection_witness:
  "selectedLecture (onSnapshot [doc_c, doc_a, doc_b]
      (onSnapshot [doc_b, doc_a] initial_state)) = Some (lecture_of_doc doc_b) \<and>
   selectedLecture (onSnapshot [doc_c, doc_a]
      (onSnapshot [doc_b, doc_a] initial_state)) = Some (lecture_of_doc doc_c) \<and>
   selectedLecture (onSnapshot [] (onSnapshot [doc_b, doc_a] initial_state)) = None"
  using onSnapshot_selection [of "[doc_c, doc_a, doc_b]" "onSnapshot [doc_b, doc_a] initial_state"]
        onSnapshot_selection [of "[doc_c, doc_a]" "onSnapshot [doc_b, doc_a] initial_state"]
        onSnapshot_selection [of "[]" "onSnapshot [doc_b, doc_a] initial_state"]
        onSnapshot_selection [of "[doc_b, doc_a]" initial_state]
  by (simp add: initial_state_def doc_a_def doc_b_def doc_c_def lecture_of_doc_def lit_def)

subsection \<open>Requests that are turned away before the generation client is called\<close>

lemma blank_state_blank: "trim (lectureText blank_state) = []"
  by (simp add: blank_state_def trim_def is_ws_def)

text \<open>
  Claim C4. When the transcript trims to the empty string, \<^verbatim>\<open>handleGenerate\<close> calls no
  collaborator at all, so no generation request is made, and it sets the error message
  \<^verbatim>\<open>Lecture text is required.\<close> and changes nothing else; the button that triggers it is
  disabled as well.
\<close>

theorem blank_transcript_rejected:
  assumes "trim (lectureText s) = []"
  shows "handleGenerate w reply now added s =
           (s\<lparr>error := Some (lit ''Lecture text is required.'')\<rparr>, []) \<and>
         isGenerateDisabled s"
  using assms by (simp add: handleGenerate_def handleGenerate_guard_def isGenerateDisabled_def)

theorem blank_transcript_rejected_witness:
  "trim (lectureText blank_state) = [] \<and>
   snd (handleGenerate bare_window (Payload (JObj [])) 5 AddOk blank_state) = [] \<and>
   error (fst (handleGenerate bare_window (Payload (JObj [])) 5 AddOk blank_state)) =
     Some (lit ''Lecture text is required.'') \<and>
   isGenerateDisabled blank_state"
  using blank_transcript_rejected [OF blank_state_blank, of bare_window "Payload (JObj [])" 5 AddOk]
        blank_state_blank
  by simp

text \<open>
  Claim C10. While the user identifier is still \<^verbatim>\<open>null\<close>, \<^verbatim>\<open>handleGenerate\<close> calls no
  collaborator (no generation request, no store write) and sets the error message
  \<^verbatim>\<open>Lecture text is required.\<close>, whatever the transcript is; the message is the one a blank
  transcript gets.
\<close>

theorem unresolved_user_rejected:
  assumes "userId s = None"
  shows "handleGenerate w reply now added s =
           (s\<lparr>error := Some (lit ''Lecture text is required.'')\<rparr>, []) \<and>
         (trim (lectureText t) = [] \<longrightarrow>
            error (fst (handleGenerate w reply now added s)) =
            error (fst (handleGenerate w' reply' now' added' t)))"
  using assms by (simp add: handleGenerate_def handleGenerate_guard_def falsy_def)

theorem unresolved_user_rejected_witness:
  "userId unresolved_state = None \<and> trim (lectureText unresolved_state) \<noteq> [] \<and>
   handleGenerate bare_window (Payload (JObj [])) 5 AddOk unresolved_state =
     (unresolved_state\<lparr>error := Some (lit ''Lecture text is required.'')\<rparr>, []) \<and>
   trim (lectureText blank_state) = [] \<and>
   error (fst (handleGenerate bare_window (Payload (JObj [])) 5 AddOk unresolved_state)) =
   error (fst (handleGenerate bare_window (Rejected None) 9 AddOk blank_state))"
proof -
  have u: "userId unresolved_state = None"
    by (simp add: unresolved_state_def initial_state_def)
  have nb: "trim (lectureText unresolved_state) \<noteq> []"
    by (simp add: unresolved_state_def trim_def is_ws_def lit_def)
  from unresolved_user_rejected [OF u, where t = blank_state and w = bare_window
      and reply = "Payload (JObj [])" and now = 5 and added = AddOk and w' = bare_window
      and reply' = "Rejected None" and now' = 9 and added' = AddOk] u nb blank_state_blank
  show ?thesis by blast
qed

subsection \<open>Start-up without store configuration\<close>

lemma absent_config_missing: "firebase_config w = None \<Longrightarrow> config_missing w"
  by (simp add: config_missing_def)

text \<open>
  Claim C8. When the store configuration is missing at start-up (\<^verbatim>\<open>window.firebase\<close>,
  \<^verbatim>\<open>window.__firebase_config\<close> or its \<^verbatim>\<open>apiKey\<close> is absent), \<^verbatim>\<open>setupFirebase\<close> turns
  the fallback mode on, makes the list the built-in list, which holds exactly one record,
  the sample \<^verbatim>\<open>mock-1\<close>, selects that record, and opens no subscription.
\<close>

theorem startup_without_config:
  assumes "config_missing w"
  shows "fst (setupFirebase w reply s) =
           s\<lparr>mockMode := True, userId := Some (lit ''MOCK_USER_ID''),
             lectures := MOCK_LECTURES, selectedLecture := Some (MOCK_LECTURES ! 0)\<rparr> \<and>
         length MOCK_LECTURES = 1 \<and>
         lecture_id (MOCK_LECTURES ! 0) = lit ''mock-1'' \<and>
         snd (setupFirebase w reply s) = []"
  using assms by (simp add: setupFirebase_def setupMockMode_def MOCK_LECTURES_def)

theorem startup_without_config_witness:
  "firebase_config bare_window = None \<and> config_missing bare_window \<and>
   mockMode (fst (setupFirebase bare_window (Subscribed (lit ''u1'')) initial_state)) \<and>
   length (lectures (fst (setupFirebase bare_window (Subscribed (lit ''u1'')) initial_state))) = 1 \<and>
   selectedLecture (fst (setupFirebase bare_window (Subscribed (lit ''u1'')) initial_state)) =
     Some (MOCK_LECTURES ! 0)"
proof -
  have a: "firebase_config bare_window = None"
    by (simp add: bare_window_def)
  have c: "config_missing bare_window"
    using a by (rule absent_config_missing)
  from startup_without_config [OF c, of "Subscribed (lit ''u1'')" initial_state] a c
  show ?thesis by simp
qed

subsection \<open>Capture\<close>




subsection \<open>Failed generation\<close>

lemma ready_state_passes: "\<not> handleGenerate_guard ready_state"
  by (simp add: handleGenerate_guard_def ready_state_def setupMockMode_def falsy_def trim_def
      is_ws_def lit_def)

lemma remote_state_passes: "\<not> handleGenerate_guard remote_state"
  by (simp add: handleGenerate_guard_def remote_state_def initial_state_def falsy_def trim_def
      is_ws_def lit_def)

lemma error_text_cause:
  "\<exists>cause. cause \<noteq> [] \<and> error_text err = lit ''An error occurred during generation: '' @ cause"
  by (cases err) (auto simp: error_text_def lit_def split: option.splits)

text \<open>
  The attempts that fail are the ones whose \<^verbatim>\<open>try\<close> block throws: the client cannot be
  built, the request is rejected, the text is not JSON, the payload is \<^verbatim>\<open>null\<close> (or
  \<^verbatim>\<open>undefined\<close>, which \<^verbatim>\<open>JSON.parse\<close> never returns), or, in remote mode, the store write
  is rejected.
\<close>

lemma try_fails_iff:
  "(\<exists>err. snd (handleGenerate_try w reply now added s) = Inl err) \<longleftrightarrow>
     (case reply of
        Payload v \<Rightarrow> nullish v \<or> (\<not> mockMode s \<and> added \<noteq> AddOk)
      | _ \<Rightarrow> True)"
  by (cases reply; cases added) (auto simp: handleGenerate_try_def Let_def)

text \<open>
  Claim C5. Whenever a generate attempt fails, that is, the request passes the guard and
  the \<^verbatim>\<open>try\<close> block throws, the state afterwards is the state before with three cells
  set: \<^verbatim>\<open>isLoading\<close> is false, \<^verbatim>\<open>activeTab\<close> is the input tab, and \<^verbatim>\<open>error\<close> is the text
  \<^verbatim>\<open>An error occurred during generation: \<close> followed by a non-empty cause. In particular
  the transcript is what it was.
\<close>

theorem generate_failure_state:
  assumes "\<not> handleGenerate_guard s"
      and "snd (handleGenerate_try w reply now added (handleGenerate_start s)) = Inl err"
  shows "fst (handleGenerate w reply now added s) =
           s\<lparr>isLoading := False, error := Some (error_text err), activeTab := TabInput\<rparr> \<and>
         (\<exists>cause. cause \<noteq> [] \<and>
            error_text err = lit ''An error occurred during generation: '' @ cause) \<and>
         lectureText (fst (handleGenerate w reply now added s)) = lectureText s"
proof -
  obtain effects where
    "handleGenerate_try w reply now added (handleGenerate_start s) = (effects, Inl err)"
    using assms(2) by (cases "handleGenerate_try w reply now added (handleGenerate_start s)") simp
  with assms(1) have "fst (handleGenerate w reply now added s) =
      s\<lparr>isLoading := False, error := Some (error_text err), activeTab := TabInput\<rparr>"
    by (simp add: handleGenerate_def handleGenerate_catch_def handleGenerate_start_def)
  with error_text_cause [of err] show ?thesis by simp
qed

text \<open>The remote service rejects the request with the message \<^verbatim>\<open>quota exceeded\<close>.\<close>

theorem generate_failure_state_witness:
  "\<not> handleGenerate_guard ready_state \<and>
   error (fst (handleGenerate bare_window (Rejected (Some (lit ''quota exceeded''))) 7 AddOk
                 ready_state)) =
     Some (lit ''An error occurred during generation: quota exceeded'') \<and>
   activeTab (fst (handleGenerate bare_window (Rejected (Some (lit ''quota exceeded''))) 7 AddOk
                     ready_state)) = TabInput \<and>
   isLoading (fst (handleGenerate bare_window (Rejected (Some (lit ''quota exceeded''))) 7 AddOk
                     ready_state)) = False \<and>
   lectureText (fst (handleGenerate bare_window (Rejected (Some (lit ''quota exceeded''))) 7 AddOk
                       ready_state)) =
     lit ''Neurons transmit signals via synapses.''"
proof -
  have f: "snd (handleGenerate_try bare_window (Rejected (Some (lit ''quota exceeded''))) 7 AddOk
             (handleGenerate_start ready_state)) = Inl (JsError (Some (lit ''quota exceeded'')))"
    by (simp add: handleGenerate_try_def)
  from generate_failure_state [OF ready_state_passes f] ready_state_passes
  show ?thesis by (simp add: error_text_def lit_def ready_state_def)
qed

subsection \<open>Successful generation\<close>

text \<open>
  What \<^verbatim>\<open>handleGenerate\<close> does with a payload on which the two property reads succeed:
  in fallback mode it puts the new record in front of the list and selects it; in remote
  mode it sends the record to the store and, when the write is acknowledged, leaves list
  and selection to the next snapshot.
\<close>

lemma handleGenerate_mock_success:
  assumes "\<not> handleGenerate_guard s" and "mockMode s" and "\<not> nullish v"
  shows "handleGenerate w (Payload v) now added s =
           (s\<lparr>isLoading := False, error := None, activeTab := TabNotes,
              lectures := mock_newLecture now (make_lectureData (lectureText s) v) # lectures s,
              selectedLecture := Some (mock_newLecture now (make_lectureData (lectureText s) v))\<rparr>,
            [GenerateContent model systemInstruction (lectureText s) responseSchema])"
  using assms
  by (simp add: handleGenerate_def handleGenerate_try_def handleGenerate_start_def Let_def)

lemma handleGenerate_remote_write:
  assumes "\<not> handleGenerate_guard s" and "\<not> mockMode s" and "\<not> nullish v"
  shows "snd (handleGenerate w (Payload v) now added s) =
           [GenerateContent model systemInstruction (lectureText s) responseSchema,
            CollectionAdd (collectionPath w (template (userId s)))
              (remote_newLecture (make_lectureData (lectureText s) v))]"
  using assms
  by (cases added)
     (simp_all add: handleGenerate_def handleGenerate_try_def handleGenerate_start_def Let_def)

lemma handleGenerate_remote_success:
  assumes "\<not> handleGenerate_guard s" and "\<not> mockMode s" and "\<not> nullish v"
  shows "fst (handleGenerate w (Payload v) now AddOk s) =
           s\<lparr>isLoading := False, error := None, activeTab := TabNotes\<rparr>"
  using assms
  by (simp add: handleGenerate_def handleGenerate_try_def handleGenerate_start_def Let_def)

lemma handleGenerate_throw:
  assumes "\<not> handleGenerate_guard s"
      and "handleGenerate_try w reply now added (handleGenerate_start s) = (effects, Inl err)"
  shows "handleGenerate w reply now added s =
           (s\<lparr>isLoading := False, error := Some (error_text err), activeTab := TabInput\<rparr>,
            effects)"
  using assms
  by (simp add: handleGenerate_def handleGenerate_catch_def handleGenerate_start_def)

lemma neuron_payload_facts:
  "\<not> nullish neuron_payload"
  "get_prop (lit ''summary'') neuron_payload = JStr (lit ''S'')"
  "get_prop (lit ''flashcards'') neuron_payload =
     JArr [flashcard ''Neuron'' ''A nerve cell.'', flashcard ''Synapse'' ''A junction.'']"
  by (simp_all add: neuron_payload_def nullish_def lit_def)

lemma bad_payload_facts:
  "\<not> nullish bad_payload"
  "get_prop (lit ''summary'') bad_payload = JNum 5"
  "get_prop (lit ''flashcards'') bad_payload = JStr (lit ''none'')"
  by (simp_all add: bad_payload_def nullish_def lit_def)

lemma ready_state_facts:
  "mockMode ready_state"
  "lectures ready_state = MOCK_LECTURES"
  "lectureText ready_state = lit ''Neurons transmit signals via synapses.''"
  by (simp_all add: ready_state_def setupMockMode_def)

lemma remote_state_facts:
  "\<not> mockMode remote_state"
  "userId remote_state = Some (lit ''u1'')"
  by (simp_all add: remote_state_def initial_state_def)

lemma remote_path:
  "collectionPath remote_window (template (Some (lit ''u1''))) =
     lit ''/artifacts/app/users/u1/lectures''"
  by (simp add: collectionPath_def template_def appId_def remote_window_def lit_def)

text \<open>
  Claim C6. When a generation succeeds on a payload whose \<^verbatim>\<open>flashcards\<close> property is the
  array \<open>cards\<close>, the flashcards of the resulting record are that same array: the same
  entries in the same order, so the same length and each term and definition as it came.
  In fallback mode the resulting record is the one put in front of the list and selected;
  in remote mode it is the one handed to the store.
\<close>

theorem flashcards_carried_verbatim:
  assumes "\<not> handleGenerate_guard s" and "\<not> nullish v"
      and "get_prop (lit ''flashcards'') v = JArr cards"
  shows "(mockMode s \<longrightarrow>
            (\<exists>r. lectures (fst (handleGenerate w (Payload v) now added s)) = r # lectures s \<and>
                 selectedLecture (fst (handleGenerate w (Payload v) now added s)) = Some r \<and>
                 flashcards r = JArr cards)) \<and>
         (\<not> mockMode s \<longrightarrow>
            (\<exists>r. snd (handleGenerate w (Payload v) now added s) =
                   [GenerateContent model systemInstruction (lectureText s) responseSchema,
                    CollectionAdd (collectionPath w (template (userId s))) r] \<and>
                 flashcards r = JArr cards))"
proof (cases "mockMode s")
  case True
  with assms show ?thesis
    by (simp add: handleGenerate_mock_success mock_newLecture_def make_lectureData_def)
next
  case False
  with assms show ?thesis
    by (simp add: handleGenerate_remote_write remote_newLecture_def make_lectureData_def)
qed

theorem flashcards_carried_verbatim_witness:
  "flashcards (lectures (fst (handleGenerate bare_window (Payload neuron_payload) 7 AddOk
                               ready_state)) ! 0) =
     JArr [flashcard ''Neuron'' ''A nerve cell.'', flashcard ''Synapse'' ''A junction.''] \<and>
   length (lectures (fst (handleGenerate bare_window (Payload neuron_payload) 7 AddOk
                            ready_state))) = 2 \<and>
   (\<exists>r. snd (handleGenerate remote_window (Payload neuron_payload) 7 AddOk remote_state) ! 1 =
          CollectionAdd (lit ''/artifacts/app/users/u1/lectures'') r \<and>
        flashcards r =
          JArr [flashcard ''Neuron'' ''A nerve cell.'', flashcard ''Synapse'' ''A junction.''])"
proof -
  from flashcards_carried_verbatim
         [OF ready_state_passes neuron_payload_facts(1) neuron_payload_facts(3),
          of bare_window 7 AddOk]
       ready_state_facts
  have A: "flashcards (lectures (fst (handleGenerate bare_window (Payload neuron_payload) 7 AddOk
                                       ready_state)) ! 0) =
             JArr [flashcard ''Neuron'' ''A nerve cell.'', flashcard ''Synapse'' ''A junction.''] \<and>
           length (lectures (fst (handleGenerate bare_window (Payload neuron_payload) 7 AddOk
                                    ready_state))) = 2"
    by (auto simp: MOCK_LECTURES_def)
  from flashcards_carried_verbatim
         [OF remote_state_passes neuron_payload_facts(1) neuron_payload_facts(3),
          of remote_window 7 AddOk]
       remote_state_facts remote_path
  have B: "\<exists>r. snd (handleGenerate remote_window (Payload neuron_payload) 7 AddOk
                      remote_state) ! 1 =
                 CollectionAdd (lit ''/artifacts/app/users/u1/lectures'') r \<and>
               flashcards r =
                 JArr [flashcard ''Neuron'' ''A nerve cell.'', flashcard ''Synapse'' ''A junction.'']"
    by auto
  from A B show ?thesis by blast
qed

text \<open>
  Claim C7. In fallback mode a successful generation adds its record to the in-memory list
  within the handler itself: the list afterwards is the new record followed by the list
  before, so it is one longer; the record carries the title, summary, flashcards and
  transcript of the generation, the identifier \<^verbatim>\<open>mock-\<close> followed by the clock reading,
  and a timestamp whose \<^verbatim>\<open>toDate\<close> yields a date whenever it is asked; the record is
  selected, and no call goes to the store.
\<close>

theorem fallback_add_prepends:
  assumes "\<not> handleGenerate_guard s" and "mockMode s" and "\<not> nullish v"
  shows "\<exists>r. lectures (fst (handleGenerate w (Payload v) now added s)) = r # lectures s \<and>
             length (lectures (fst (handleGenerate w (Payload v) now added s))) =
               length (lectures s) + 1 \<and>
             selectedLecture (fst (handleGenerate w (Payload v) now added s)) = Some r \<and>
             title r = take 40 (lectureText s) @ lit ''...'' \<and>
             summary r = get_prop (lit ''summary'') v \<and>
             flashcards r = get_prop (lit ''flashcards'') v \<and>
             originalText r = lectureText s \<and>
             lecture_id r = lit ''mock-'' @ show_int now \<and>
             timestamp r = ClockNow \<and> toDate (timestamp r) t = Some t \<and>
             snd (handleGenerate w (Payload v) now added s) =
               [GenerateContent model systemInstruction (lectureText s) responseSchema]"
  using assms
  by (simp add: handleGenerate_mock_success mock_newLecture_def make_lectureData_def)

theorem fallback_add_prepends_witness:
  "lectures (fst (handleGenerate bare_window (Payload neuron_payload) 17 AddOk ready_state)) =
     \<lparr>title = lit ''Neurons transmit signals via synapses....'',
      summary = JStr (lit ''S''),
      flashcards = JArr [flashcard ''Neuron'' ''A nerve cell.'', flashcard ''Synapse'' ''A junction.''],
      originalText = lit ''Neurons transmit signals via synapses.'',
      timestamp = ClockNow,
      lecture_id = lit ''mock-17''\<rparr> # MOCK_LECTURES"
proof -
  have n: "show_int 17 = lit ''17''"
    by (simp add: show_int_def digits.simps lit_def)
  have t: "take 40 (lit ''Neurons transmit signals via synapses.'') @ lit ''...'' =
             lit ''Neurons transmit signals via synapses....''"
    by (simp add: lit_def)
  from fallback_add_prepends
         [OF ready_state_passes ready_state_facts(1) neuron_payload_facts(1),
          of bare_window 17 AddOk 0]
  obtain r where
        "lectures (fst (handleGenerate bare_window (Payload neuron_payload) 17 AddOk ready_state)) =
           r # lectures ready_state"
    and "title r = take 40 (lectureText ready_state) @ lit ''...''"
    and "summary r = get_prop (lit ''summary'') neuron_payload"
    and "flashcards r = get_prop (lit ''flashcards'') neuron_payload"
    and "originalText r = lectureText ready_state"
    and "lecture_id r = lit ''mock-'' @ show_int 17"
    and "timestamp r = ClockNow"
    by blast
  then show ?thesis
    unfolding ready_state_facts neuron_payload_facts n t by (cases r) (simp add: lit_def)
qed

subsection \<open>What the payload may be\<close>

text \<open>
  Claim C2 says that a payload which is not JSON, or is JSON of another shape than the
  required one, makes generation fail with an error message and produces no record. The
  second half does not hold: the payload \<^verbatim>\<open>{"summary": 5, "flashcards": "none"}\<close> is not
  of the required shape, and in fallback mode \<^verbatim>\<open>handleGenerate\<close> sets no error, stays on
  the notes tab and puts a record with summary \<^verbatim>\<open>5\<close> and flashcards \<^verbatim>\<open>"none"\<close> in front of
  the list.
\<close>

theorem misshapen_payload_accepted:
  "\<not> required_shape bad_payload \<and>
   \<not> handleGenerate_guard ready_state \<and>
   error (fst (handleGenerate bare_window (Payload bad_payload) 7 AddOk ready_state)) = None \<and>
   activeTab (fst (handleGenerate bare_window (Payload bad_payload) 7 AddOk ready_state)) = TabNotes \<and>
   lectures (fst (handleGenerate bare_window (Payload bad_payload) 7 AddOk ready_state)) =
     \<lparr>title = lit ''Neurons transmit signals via synapses....'',
      summary = JNum 5,
      flashcards = JStr (lit ''none''),
      originalText = lit ''Neurons transmit signals via synapses.'',
      timestamp = ClockNow,
      lecture_id = lit ''mock-7''\<rparr> # MOCK_LECTURES"
proof -
  have shape: "\<not> required_shape bad_payload"
    by (simp add: required_shape_def bad_payload_def is_string_def)
  have n: "show_int 7 = lit ''7''"
    by (simp add: show_int_def digits.simps lit_def)
  have run: "fst (handleGenerate bare_window (Payload bad_payload) 7 AddOk ready_state) =
      ready_state\<lparr>isLoading := False, error := None, activeTab := TabNotes,
         lectures := mock_newLecture 7 (make_lectureData (lectureText ready_state) bad_payload)
                       # lectures ready_state,
         selectedLecture :=
           Some (mock_newLecture 7 (make_lectureData (lectureText ready_state) bad_payload))\<rparr>"
    by (simp add: handleGenerate_mock_success
          [OF ready_state_passes ready_state_facts(1) bad_payload_facts(1)])
  show ?thesis
    unfolding run
    using shape ready_state_passes
    by (simp add: mock_newLecture_def make_lectureData_def n bad_payload_def
        ready_state_facts lit_def)
qed

text \<open>
  Claim C2, amended. When the returned text does not parse as JSON, or parses to
  \<^verbatim>\<open>null\<close>, generation fails: the error message is \<^verbatim>\<open>An error occurred during generation: \<close>
  followed by the cause, the input tab is shown again, and list and selection are as
  before, so no record is produced. A payload that parses to any other value is not checked
  against the required shape: in fallback mode it yields a record, and in remote mode a
  store write, whose summary and flashcards are the payload's \<^verbatim>\<open>summary\<close> and
  \<^verbatim>\<open>flashcards\<close> properties as they are, \<^verbatim>\<open>undefined\<close> when the payload has none.
\<close>

theorem payload_handling:
  assumes "\<not> handleGenerate_guard s"
  shows "handleGenerate w (Unparsable m) now added s =
           (s\<lparr>isLoading := False,
              error := Some (lit ''An error occurred during generation: '' @
                             (if m = [] then lit ''Unknown error'' else m)),
              activeTab := TabInput\<rparr>,
            [GenerateContent model systemInstruction (lectureText s) responseSchema]) \<and>
         handleGenerate w (Payload JNull) now added s =
           (s\<lparr>isLoading := False,
              error := Some (lit ''An error occurred during generation: '' @
                             property_error_message JNull),
              activeTab := TabInput\<rparr>,
            [GenerateContent model systemInstruction (lectureText s) responseSchema]) \<and>
         (\<not> nullish v \<and> mockMode s \<longrightarrow>
            (\<exists>r. fst (handleGenerate w (Payload v) now added s) =
                   s\<lparr>isLoading := False, error := None, activeTab := TabNotes,
                     lectures := r # lectures s, selectedLecture := Some r\<rparr> \<and>
                 summary r = get_prop (lit ''summary'') v \<and>
                 flashcards r = get_prop (lit ''flashcards'') v)) \<and>
         (\<not> nullish v \<and> \<not> mockMode s \<longrightarrow>
            (\<exists>r. snd (handleGenerate w (Payload v) now added s) =
                   [GenerateContent model systemInstruction (lectureText s) responseSchema,
                    CollectionAdd (collectionPath w (template (userId s))) r] \<and>
                 summary r = get_prop (lit ''summary'') v \<and>
                 flashcards r = get_prop (lit ''flashcards'') v))"
proof -
  have a: "handleGenerate w (Unparsable m) now added s =
           (s\<lparr>isLoading := False,
              error := Some (lit ''An error occurred during generation: '' @
                             (if m = [] then lit ''Unknown error'' else m)),
              activeTab := TabInput\<rparr>,
            [GenerateContent model systemInstruction (lectureText s) responseSchema])"
    using assms
    by (simp add: handleGenerate_throw [where err = "JsError (Some m)"] handleGenerate_try_def
        handleGenerate_start_def error_text_def)
  have b: "handleGenerate w (Payload JNull) now added s =
           (s\<lparr>isLoading := False,
              error := Some (lit ''An error occurred during generation: '' @
                             property_error_message JNull),
              activeTab := TabInput\<rparr>,
            [GenerateContent model systemInstruction (lectureText s) responseSchema])"
    using assms
    by (simp add: handleGenerate_throw [where err = "JsError (Some (property_error_message JNull))"]
        handleGenerate_try_def handleGenerate_start_def error_text_def nullish_def
        property_error_message_def)
  have c: "\<not> nullish v \<and> mockMode s \<longrightarrow>
            (\<exists>r. fst (handleGenerate w (Payload v) now added s) =
                   s\<lparr>isLoading := False, error := None, activeTab := TabNotes,
                     lectures := r # lectures s, selectedLecture := Some r\<rparr> \<and>
                 summary r = get_prop (lit ''summary'') v \<and>
                 flashcards r = get_prop (lit ''flashcards'') v)"
    using assms
    by (auto simp: handleGenerate_mock_success mock_newLecture_def make_lectureData_def)
  have d: "\<not> nullish v \<and> \<not> mockMode s \<longrightarrow>
            (\<exists>r. snd (handleGenerate w (Payload v) now added s) =
                   [GenerateContent model systemInstruction (lectureText s) responseSchema,
                    CollectionAdd (collectionPath w (template (userId s))) r] \<and>
                 summary r = get_prop (lit ''summary'') v \<and>
                 flashcards r = get_prop (lit ''flashcards'') v)"
    using assms
    by (auto simp: handleGenerate_remote_write remote_newLecture_def make_lectureData_def)
  from a b c d show ?thesis by blast
qed

theorem payload_handling_witness:
  "\<not> handleGenerate_guard ready_state \<and>
   error (fst (handleGenerate bare_window (Unparsable (lit ''Unexpected end of JSON input'')) 7 AddOk
                 ready_state)) =
     Some (lit ''An error occurred during generation: Unexpected end of JSON input'') \<and>
   lectures (fst (handleGenerate bare_window (Unparsable (lit ''Unexpected end of JSON input'')) 7
                    AddOk ready_state)) = MOCK_LECTURES \<and>
   lectures (fst (handleGenerate bare_window (Payload JNull) 7 AddOk ready_state)) = MOCK_LECTURES \<and>
   summary (lectures (fst (handleGenerate bare_window (Payload bad_payload) 7 AddOk
                            ready_state)) ! 0) = JNum 5 \<and>
   (\<exists>r. snd (handleGenerate remote_window (Payload bad_payload) 7 AddOk remote_state) ! 1 =
          CollectionAdd (lit ''/artifacts/app/users/u1/lectures'') r \<and>
        flashcards r = JStr (lit ''none''))"
proof -
  note mock = payload_handling [OF ready_state_passes, of bare_window
      "lit ''Unexpected end of JSON input''" 7 AddOk bad_payload]
  note remote = payload_handling [OF remote_state_passes, of remote_window
      "lit ''Unexpected end of JSON input''" 7 AddOk bad_payload]
  have A: "error (fst (handleGenerate bare_window (Unparsable (lit ''Unexpected end of JSON input''))
                         7 AddOk ready_state)) =
             Some (lit ''An error occurred during generation: Unexpected end of JSON input'') \<and>
           lectures (fst (handleGenerate bare_window (Unparsable (lit ''Unexpected end of JSON input''))
                            7 AddOk ready_state)) = MOCK_LECTURES \<and>
           lectures (fst (handleGenerate bare_window (Payload JNull) 7 AddOk ready_state)) =
             MOCK_LECTURES"
    using mock ready_state_facts by (simp add: lit_def)
  have B: "summary (lectures (fst (handleGenerate bare_window (Payload bad_payload) 7 AddOk
                                    ready_state)) ! 0) = JNum 5"
    using mock ready_state_facts bad_payload_facts by auto
  have C: "\<exists>r. snd (handleGenerate remote_window (Payload bad_payload) 7 AddOk remote_state) ! 1 =
                 CollectionAdd (lit ''/artifacts/app/users/u1/lectures'') r \<and>
               flashcards r = JStr (lit ''none'')"
    using remote remote_state_facts bad_payload_facts remote_path by auto
  from A B C ready_state_passes show ?thesis by blast
qed

subsection \<open>The invariant of flashcards\<close>

lemma sample_ok: "list_all record_ok MOCK_LECTURES"
  by (simp add: MOCK_LECTURES_def record_ok_def flashcards_ok_def nonempty_term_def
      flashcard_def lit_def)

text \<open>
  Claim C3 says that every record held has a flashcards list whose entries all have
  non-empty terms. It does not hold of generated records: the payload
  \<^verbatim>\<open>{"summary": "S", "flashcards": [{"term": "", "definition": "D"}]}\<close> has the required
  shape, generation succeeds on it, and the list, whose records all met the invariant
  before, then starts with a record whose only flashcard has the empty term.
\<close>

theorem empty_term_record_held:
  "required_shape empty_term_payload \<and>
   \<not> handleGenerate_guard ready_state \<and>
   list_all record_ok (lectures ready_state) \<and>
   error (fst (handleGenerate bare_window (Payload empty_term_payload) 7 AddOk ready_state)) = None \<and>
   flashcards (lectures (fst (handleGenerate bare_window (Payload empty_term_payload) 7 AddOk
                               ready_state)) ! 0) =
     JArr [JObj [(lit ''term'', JStr []), (lit ''definition'', JStr (lit ''D''))]] \<and>
   \<not> list_all record_ok
        (lectures (fst (handleGenerate bare_window (Payload empty_term_payload) 7 AddOk ready_state)))"
proof -
  have shape: "required_shape empty_term_payload"
    by (simp add: required_shape_def empty_term_payload_def is_string_def flashcard_shape_def
        flashcard_def lit_def)
  have v: "\<not> nullish empty_term_payload"
    by (simp add: empty_term_payload_def nullish_def)
  have g: "get_prop (lit ''flashcards'') empty_term_payload =
             JArr [JObj [(lit ''term'', JStr []), (lit ''definition'', JStr (lit ''D''))]]"
    by (simp add: empty_term_payload_def flashcard_def lit_def)
  have bad: "\<not> flashcards_ok
                 (JArr [JObj [(lit ''term'', JStr []), (lit ''definition'', JStr (lit ''D''))]])"
    by (simp add: flashcards_ok_def nonempty_term_def)
  have run: "fst (handleGenerate bare_window (Payload empty_term_payload) 7 AddOk ready_state) =
      ready_state\<lparr>isLoading := False, error := None, activeTab := TabNotes,
         lectures :=
           mock_newLecture 7 (make_lectureData (lectureText ready_state) empty_term_payload)
             # lectures ready_state,
         selectedLecture :=
           Some (mock_newLecture 7
                   (make_lectureData (lectureText ready_state) empty_term_payload))\<rparr>"
    by (simp add: handleGenerate_mock_success [OF ready_state_passes ready_state_facts(1) v])
  show ?thesis
    unfolding run
    using shape ready_state_passes sample_ok bad
    by (simp add: ready_state_facts(2) g mock_newLecture_def make_lectureData_def record_ok_def)
qed

text \<open>
  Claim C3, amended. The seeded sample record has a flashcards list whose entries all have
  non-empty terms, so every record held after the switch to fallback mode has. A record
  created by a successful generation holds the payload's \<^verbatim>\<open>flashcards\<close> property as it
  came, unchecked: it has a flashcards list with non-empty terms exactly when that property
  is such a list. This holds of the record put in the list in fallback mode and of the
  record handed to the store in remote mode.
\<close>

theorem flashcards_invariant_scope:
  "list_all record_ok (lectures (setupMockMode s0)) \<and>
   (\<not> handleGenerate_guard s \<and> mockMode s \<and> \<not> nullish v \<longrightarrow>
      (list_all record_ok (lectures (fst (handleGenerate w (Payload v) now added s))) \<longleftrightarrow>
         flashcards_ok (get_prop (lit ''flashcards'') v) \<and> list_all record_ok (lectures s))) \<and>
   (\<not> handleGenerate_guard s \<and> \<not> mockMode s \<and> \<not> nullish v \<longrightarrow>
      (\<exists>r. snd (handleGenerate w (Payload v) now added s) =
             [GenerateContent model systemInstruction (lectureText s) responseSchema,
              CollectionAdd (collectionPath w (template (userId s))) r] \<and>
           (record_ok r \<longleftrightarrow> flashcards_ok (get_prop (lit ''flashcards'') v))))"
proof -
  have a: "list_all record_ok (lectures (setupMockMode s0))"
    by (simp add: setupMockMode_def sample_ok)
  have b: "\<not> handleGenerate_guard s \<and> mockMode s \<and> \<not> nullish v \<longrightarrow>
      (list_all record_ok (lectures (fst (handleGenerate w (Payload v) now added s))) \<longleftrightarrow>
         flashcards_ok (get_prop (lit ''flashcards'') v) \<and> list_all record_ok (lectures s))"
    by (simp add: handleGenerate_mock_success mock_newLecture_def make_lectureData_def
        record_ok_def)
  have c: "\<not> handleGenerate_guard s \<and> \<not> mockMode s \<and> \<not> nullish v \<longrightarrow>
      (\<exists>r. snd (handleGenerate w (Payload v) now added s) =
             [GenerateContent model systemInstruction (lectureText s) responseSchema,
              CollectionAdd (collectionPath w (template (userId s))) r] \<and>
           (record_ok r \<longleftrightarrow> flashcards_ok (get_prop (lit ''flashcards'') v)))"
    by (simp add: handleGenerate_remote_write remote_newLecture_def make_lectureData_def
        record_ok_def)
  from a b c show ?thesis by blast
qed

theorem flashcards_invariant_scope_witness:
  "list_all record_ok (lectures (setupMockMode initial_state)) \<and>
   \<not> handleGenerate_guard ready_state \<and> mockMode ready_state \<and> \<not> nullish neuron_payload \<and>
   list_all record_ok
     (lectures (fst (handleGenerate bare_window (Payload neuron_payload) 7 AddOk ready_state))) \<and>
   \<not> handleGenerate_guard remote_state \<and> \<not> mockMode remote_state \<and>
   (\<exists>r. snd (handleGenerate remote_window (Payload neuron_payload) 7 AddOk remote_state) ! 1 =
          CollectionAdd (lit ''/artifacts/app/users/u1/lectures'') r \<and> record_ok r)"
proof -
  have ok: "flashcards_ok (get_prop (lit ''flashcards'') neuron_payload)"
    by (simp add: neuron_payload_def flashcards_ok_def nonempty_term_def flashcard_def lit_def)
  note mock = flashcards_invariant_scope
      [of initial_state ready_state neuron_payload bare_window 7 AddOk]
  note remote = flashcards_invariant_scope
      [of initial_state remote_state neuron_payload remote_window 7 AddOk]
  have A: "list_all record_ok (lectures (setupMockMode initial_state)) \<and>
     list_all record_ok
       (lectures (fst (handleGenerate bare_window (Payload neuron_payload) 7 AddOk ready_state)))"
    using mock ready_state_passes ready_state_facts(1,2) neuron_payload_facts(1) ok
    by (simp add: setupMockMode_def)
  have B: "\<exists>r. snd (handleGenerate remote_window (Payload neuron_payload) 7 AddOk
                      remote_state) ! 1 =
          CollectionAdd (lit ''/artifacts/app/users/u1/lectures'') r \<and> record_ok r"
    using remote remote_state_passes remote_state_facts neuron_payload_facts(1) ok remote_path
    by auto
  from A B ready_state_passes remote_state_passes ready_state_facts(1) remote_state_facts(1)
       neuron_payload_facts(1)
  show ?thesis by blast
qed

end
